theory Spec2Isabelle
  imports Main "HOL-Library.Word" "HOL-Library.AList"
begin

section \<open>Strings of the JavaScript runtime\<close>

text \<open>
  A JavaScript string is a sequence of UTF-16 code units. The manager in
  \<^verbatim>\<open>src/server/lib/claude.ts\<close> looks at code units only (the line feed, white space,
  the escape character, JSON punctuation), so a string is a list of 16-bit words.
  \<open>js\<close> writes an ASCII literal as such a list.
\<close>

type_synonym jsstring = "16 word list"

definition js :: "string \<Rightarrow> jsstring" where
  "js s = map (\<lambda>c. of_nat (of_char c)) s"

text \<open>
  \<^verbatim>\<open>String.prototype.trim\<close> removes the code units of WhiteSpace and LineTerminator
  (ECMA-262) from both ends: TAB, LF, VT, FF, CR, SP, NBSP, U+1680, U+2000 to U+200A,
  U+2028, U+2029, U+202F, U+205F, U+3000 and U+FEFF.
\<close>

definition is_js_space :: "16 word \<Rightarrow> bool" where
  "is_js_space c \<longleftrightarrow>
     c = 0x09 \<or> c = 0x0A \<or> c = 0x0B \<or> c = 0x0C \<or> c = 0x0D \<or> c = 0x20 \<or> c = 0xA0 \<or>
     c = 0x1680 \<or> (0x2000 \<le> c \<and> c \<le> 0x200A) \<or> c = 0x2028 \<or> c = 0x2029 \<or>
     c = 0x202F \<or> c = 0x205F \<or> c = 0x3000 \<or> c = 0xFEFF"

definition trim :: "jsstring \<Rightarrow> jsstring" where
  "trim s = rev (dropWhile is_js_space (rev (dropWhile is_js_space s)))"

text \<open>
  \<^verbatim>\<open>s.split("\n")\<close>: the pieces between line feeds; never empty, the last piece is
  what follows the last line feed (the whole string when there is none).
\<close>

definition push_front :: "16 word \<Rightarrow> jsstring list \<Rightarrow> jsstring list" where
  "push_front c ls = (c # hd ls) # tl ls"

fun split_nl :: "jsstring \<Rightarrow> jsstring list" where
  "split_nl [] = [[]]"
| "split_nl (c # cs) =
     (if c = 0x0A then [] # split_nl cs else push_front c (split_nl cs))"

text \<open>
  \<^verbatim>\<open>s.replace(/\x1b\[[0-9;]*m/g, "")\<close>: one pass from left to right. At an escape
  character followed by \<open>[\<close> the star takes the longest run of digits and semicolons;
  the match succeeds exactly when the next code unit is \<open>m\<close> (a shorter run would be
  followed by a digit or semicolon, never by \<open>m\<close>). A match is dropped and the scan
  goes on behind it; otherwise the code unit is kept and the scan moves one step.
\<close>

definition is_sgr_param :: "16 word \<Rightarrow> bool" where
  "is_sgr_param c \<longleftrightarrow> (0x30 \<le> c \<and> c \<le> 0x39) \<or> c = 0x3B"

function strip_ansi :: "jsstring \<Rightarrow> jsstring" where
  "strip_ansi [] = []"
| "strip_ansi (c # cs) =
     (if c = 0x1B \<and> cs \<noteq> [] \<and> hd cs = 0x5B \<and>
         dropWhile is_sgr_param (tl cs) \<noteq> [] \<and> hd (dropWhile is_sgr_param (tl cs)) = 0x6D
      then strip_ansi (tl (dropWhile is_sgr_param (tl cs)))
      else c # strip_ansi cs)"
  by pat_completeness auto
termination
proof (relation "measure length")
  show "wf (measure length)" by simp
next
  fix c :: "16 word" and cs :: jsstring
  have "length (tl (dropWhile is_sgr_param (tl cs))) \<le> length (dropWhile is_sgr_param (tl cs))"
    by simp
  also have "\<dots> \<le> length (tl cs)" by (rule length_dropWhile_le)
  also have "\<dots> \<le> length cs" by simp
  finally show "(tl (dropWhile is_sgr_param (tl cs)), c # cs) \<in> measure length"
    by simp
next
  fix c :: "16 word" and cs :: jsstring
  show "(cs, c # cs) \<in> measure length" by simp
qed

section \<open>The line parser of the PTY data handler\<close>

text \<open>
  The data handler does \<^verbatim>\<open>info.buffer += data; lines = info.buffer.split("\n");
  info.buffer = lines.pop() || ""\<close>. \<open>feed\<close> is that step: the complete lines and the
  fragment kept in the buffer. The popped element is a string, and \<^verbatim>\<open>|| ""\<close> only
  replaces the empty string by itself.
\<close>

definition feed :: "jsstring \<Rightarrow> jsstring \<Rightarrow> jsstring list \<times> jsstring" where
  "feed buffer data =
     (let lines = split_nl (buffer @ data) in (butlast lines, last lines))"

text \<open>Feeding chunks one at a time, collecting the complete lines in order.\<close>

fun feed_chunks :: "jsstring \<Rightarrow> jsstring list \<Rightarrow> jsstring list \<times> jsstring" where
  "feed_chunks buffer [] = ([], buffer)"
| "feed_chunks buffer (d # ds) =
     (let (ls, b) = feed buffer d; (ls', b') = feed_chunks b ds in (ls @ ls', b'))"

section \<open>JSON.parse\<close>

text \<open>
  \<^verbatim>\<open>JSON.parse\<close> belongs to the JavaScript runtime, not to the repository. It is
  modelled by the JSON grammar of ECMA-404, which ECMA-262 prescribes for it: white space
  is SP, TAB, LF and CR; a string may hold any code unit except the quote, the backslash
  and the controls below U+0020, with the escapes \<^verbatim>\<open>\" \\ \/ \b \f \n \r \t \uXXXX\<close>;
  a number is \<^verbatim>\<open>-? (0 | [1-9][0-9]*) (. [0-9]+)? ([eE] [+-]? [0-9]+)?\<close>. The limit
  that an engine puts on the nesting depth is not modelled.

  A number carries the exact value of its literal, \<open>JNumber neg m e\<close> for
  \<open>(-1)^neg * m * 10^e\<close>; the double that the runtime holds is the rounding of that
  value. \<open>JUndefined\<close> is never a result of parsing: it is the value of a missing
  property. An object keeps its members in source order.
\<close>

datatype jsvalue =
    JUndefined
  | JNull
  | JBool bool
  | JNumber bool nat int
  | JString jsstring
  | JArray "jsvalue list"
  | JObject "(jsstring \<times> jsvalue) list"

text \<open>The lexer: punctuation, and scalar literals with their value.\<close>

datatype token = TLBrace | TRBrace | TLBracket | TRBracket | TColon | TComma | TLit jsvalue

definition is_json_ws :: "16 word \<Rightarrow> bool" where
  "is_json_ws c \<longleftrightarrow> c = 0x20 \<or> c = 0x09 \<or> c = 0x0A \<or> c = 0x0D"

definition is_digit :: "16 word \<Rightarrow> bool" where
  "is_digit c \<longleftrightarrow> 0x30 \<le> c \<and> c \<le> 0x39"

definition hex_digit :: "16 word \<Rightarrow> nat option" where
  "hex_digit c =
     (if 0x30 \<le> c \<and> c \<le> 0x39 then Some (unat c - 0x30)
      else if 0x41 \<le> c \<and> c \<le> 0x46 then Some (unat c - 0x41 + 10)
      else if 0x61 \<le> c \<and> c \<le> 0x66 then Some (unat c - 0x61 + 10)
      else None)"

definition unescape :: "16 word \<Rightarrow> 16 word option" where
  "unescape e =
     (if e = 0x22 then Some 0x22
      else if e = 0x5C then Some 0x5C
      else if e = 0x2F then Some 0x2F
      else if e = 0x62 then Some 0x08
      else if e = 0x66 then Some 0x0C
      else if e = 0x6E then Some 0x0A
      else if e = 0x72 then Some 0x0D
      else if e = 0x74 then Some 0x09
      else None)"

definition hex4 :: "jsstring \<Rightarrow> 16 word option" where
  "hex4 hs =
     (case map hex_digit hs of
        [Some a, Some b, Some c, Some d] \<Rightarrow> Some (of_nat (((a * 16 + b) * 16 + c) * 16 + d))
      | _ \<Rightarrow> None)"

definition cons_char :: "16 word \<Rightarrow> (jsstring \<times> jsstring) option \<Rightarrow> (jsstring \<times> jsstring) option" where
  "cons_char c r = map_option (\<lambda>(s, rest). (c # s, rest)) r"

fun lex_string :: "jsstring \<Rightarrow> (jsstring \<times> jsstring) option" where
  "lex_string [] = None"
| "lex_string (c # cs) =
     (if c = 0x22 then Some ([], cs)
      else if c = 0x5C then
        (case cs of
           [] \<Rightarrow> None
         | e # cs' \<Rightarrow>
             if e = 0x75 then
               (case hex4 (take 4 cs') of
                  None \<Rightarrow> None
                | Some u \<Rightarrow> cons_char u (lex_string (drop 4 cs')))
             else
               (case unescape e of
                  None \<Rightarrow> None
                | Some u \<Rightarrow> cons_char u (lex_string cs')))
      else if c < 0x20 then None
      else cons_char c (lex_string cs))"

definition digits_value :: "jsstring \<Rightarrow> nat" where
  "digits_value ds = foldl (\<lambda>n c. 10 * n + (unat c - 0x30)) 0 ds"

definition lex_exponent :: "jsstring \<Rightarrow> (int \<times> jsstring) option" where
  "lex_exponent cs =
     (if cs \<noteq> [] \<and> (hd cs = 0x65 \<or> hd cs = 0x45) then
        (let signed = (tl cs \<noteq> [] \<and> (hd (tl cs) = 0x2D \<or> hd (tl cs) = 0x2B));
             neg = (tl cs \<noteq> [] \<and> hd (tl cs) = 0x2D);
             ds = (if signed then tl (tl cs) else tl cs);
             e = takeWhile is_digit ds
         in if e = [] then None
            else Some ((if neg then - int (digits_value e) else int (digits_value e)),
                       dropWhile is_digit ds))
      else Some (0, cs))"

definition lex_fraction :: "jsstring \<Rightarrow> (jsstring \<times> jsstring) option" where
  "lex_fraction cs =
     (if cs \<noteq> [] \<and> hd cs = 0x2E then
        (let f = takeWhile is_digit (tl cs)
         in if f = [] then None else Some (f, dropWhile is_digit (tl cs)))
      else Some ([], cs))"

definition lex_number :: "jsstring \<Rightarrow> (jsvalue \<times> jsstring) option" where
  "lex_number cs =
     (let neg = (cs \<noteq> [] \<and> hd cs = 0x2D);
          cs1 = (if neg then tl cs else cs);
          ip = (if cs1 \<noteq> [] \<and> hd cs1 = 0x30 then [0x30] else takeWhile is_digit cs1)
      in if ip = [] then None
         else
           (case lex_fraction (drop (length ip) cs1) of
              None \<Rightarrow> None
            | Some (fp, cs2) \<Rightarrow>
                (case lex_exponent cs2 of
                   None \<Rightarrow> None
                 | Some (e, cs3) \<Rightarrow>
                     Some (JNumber neg (digits_value (ip @ fp)) (e - int (length fp)), cs3))))"

lemma cons_char_length: "cons_char c r = Some (s, rest) \<Longrightarrow> \<exists>s'. r = Some (s', rest)"
  by (cases r) (auto simp: cons_char_def)

lemma lex_string_length: "lex_string cs = Some (s, rest) \<Longrightarrow> length rest < length cs"
proof (induction cs arbitrary: s rest rule: lex_string.induct)
  case 1 then show ?case by simp
next
  case (2 c cs)
  show ?case
  proof (cases "c = 0x22")
    case True with 2(4) show ?thesis by auto
  next
    case nq: False
    show ?thesis
    proof (cases "c = 0x5C")
      case True
      with nq 2(4) obtain e cs' where cs: "cs = e # cs'" by (cases cs) auto
      show ?thesis
      proof (cases "e = 0x75")
        case u: True
        with nq True cs 2(4) obtain uu where h: "hex4 (take 4 cs') = Some uu"
          and r: "cons_char uu (lex_string (drop 4 cs')) = Some (s, rest)"
          by (auto split: option.splits)
        from cons_char_length[OF r] obtain s' where "lex_string (drop 4 cs') = Some (s', rest)" by blast
        from 2(1)[OF nq True cs u h this] have "length rest < length (drop 4 cs')" .
        with cs show ?thesis by simp
      next
        case nu: False
        with nq True cs 2(4) obtain uu where h: "unescape e = Some uu"
          and r: "cons_char uu (lex_string cs') = Some (s, rest)"
          by (auto split: option.splits)
        from cons_char_length[OF r] obtain s' where "lex_string cs' = Some (s', rest)" by blast
        from 2(2)[OF nq True cs nu h this] have "length rest < length cs'" .
        with cs show ?thesis by simp
      qed
    next
      case nb: False
      with nq 2(4) have c20: "\<not> c < 0x20" and r: "cons_char c (lex_string cs) = Some (s, rest)"
        by (auto split: if_splits)
      from cons_char_length[OF r] obtain s' where "lex_string cs = Some (s', rest)" by blast
      from 2(3)[OF nq nb c20 this] show ?thesis by simp
    qed
  qed
qed

lemma lex_fraction_length: "lex_fraction cs = Some (f, rest) \<Longrightarrow> length rest \<le> length cs"
  by (auto simp: lex_fraction_def Let_def split: if_splits
      intro: order_trans[OF length_dropWhile_le])

lemma lex_exponent_length: "lex_exponent cs = Some (e, rest) \<Longrightarrow> length rest \<le> length cs"
  by (auto simp: lex_exponent_def Let_def split: if_splits
      intro: order_trans[OF length_dropWhile_le])

lemma lex_number_length:
  assumes "lex_number cs = Some (v, rest)"
  shows "length rest < length cs"
proof -
  define neg where "neg = (cs \<noteq> [] \<and> hd cs = 0x2D)"
  define cs1 where "cs1 = (if neg then tl cs else cs)"
  define ip where "ip = (if cs1 \<noteq> [] \<and> hd cs1 = 0x30 then [0x30] else takeWhile is_digit cs1)"
  from assms have ne: "ip \<noteq> []"
    unfolding lex_number_def Let_def neg_def cs1_def ip_def by (auto split: if_splits)
  from assms ne obtain fp cs2 e where f: "lex_fraction (drop (length ip) cs1) = Some (fp, cs2)"
    and x: "lex_exponent cs2 = Some (e, rest)"
    unfolding lex_number_def Let_def neg_def cs1_def ip_def
    by (auto split: if_splits option.splits)
  have "length ip \<le> length cs1"
    unfolding ip_def by (cases cs1) (auto simp: length_takeWhile_le)
  moreover from ne have "0 < length ip" by simp
  ultimately have "length (drop (length ip) cs1) < length cs1"
    unfolding length_drop by linarith
  moreover have "length cs1 \<le> length cs" unfolding cs1_def by simp
  ultimately show ?thesis
    using lex_fraction_length[OF f] lex_exponent_length[OF x] by linarith
qed

function lex :: "jsstring \<Rightarrow> token list option" where
  "lex [] = Some []"
| "lex (c # cs) =
     (if is_json_ws c then lex cs
      else if c = 0x7B then map_option (Cons TLBrace) (lex cs)
      else if c = 0x7D then map_option (Cons TRBrace) (lex cs)
      else if c = 0x5B then map_option (Cons TLBracket) (lex cs)
      else if c = 0x5D then map_option (Cons TRBracket) (lex cs)
      else if c = 0x3A then map_option (Cons TColon) (lex cs)
      else if c = 0x2C then map_option (Cons TComma) (lex cs)
      else if c = 0x22 then
        (case lex_string cs of
           None \<Rightarrow> None
         | Some (s, rest) \<Rightarrow> map_option (Cons (TLit (JString s))) (lex rest))
      else if c = 0x2D \<or> is_digit c then
        (case lex_number (c # cs) of
           None \<Rightarrow> None
         | Some (v, rest) \<Rightarrow> map_option (Cons (TLit v)) (lex rest))
      else if take 4 (c # cs) = js ''true'' then
        map_option (Cons (TLit (JBool True))) (lex (drop 3 cs))
      else if take 5 (c # cs) = js ''false'' then
        map_option (Cons (TLit (JBool False))) (lex (drop 4 cs))
      else if take 4 (c # cs) = js ''null'' then
        map_option (Cons (TLit JNull)) (lex (drop 3 cs))
      else None)"
  by pat_completeness auto
termination
  by (relation "measure length")
     (auto dest: lex_string_length lex_number_length)

text \<open>
  The parser is a pushdown automaton over the tokens. A frame is an open container:
  the elements of an array read so far (latest first), or the members of an object read
  so far (latest first) and the key whose value is awaited. The state says what the
  grammar allows next.
\<close>

datatype frame = InArray "jsvalue list" | InObject "(jsstring \<times> jsvalue) list" "jsstring option"

datatype pstate = PValue | PValueOrClose | PKeyOrClose | PKey | PColon | PAfter | PDone jsvalue

fun push_value :: "jsvalue \<Rightarrow> frame list \<Rightarrow> (pstate \<times> frame list) option" where
  "push_value v [] = Some (PDone v, [])"
| "push_value v (InArray vs # st) = Some (PAfter, InArray (v # vs) # st)"
| "push_value v (InObject ms (Some k) # st) = Some (PAfter, InObject ((k, v) # ms) None # st)"
| "push_value v (InObject ms None # st) = None"

fun open_value :: "token \<Rightarrow> frame list \<Rightarrow> (pstate \<times> frame list) option" where
  "open_value TLBracket st = Some (PValueOrClose, InArray [] # st)"
| "open_value TLBrace st = Some (PKeyOrClose, InObject [] None # st)"
| "open_value (TLit v) st = push_value v st"
| "open_value _ st = None"

fun close_array :: "frame list \<Rightarrow> (pstate \<times> frame list) option" where
  "close_array (InArray vs # st) = push_value (JArray (rev vs)) st"
| "close_array _ = None"

fun close_object :: "frame list \<Rightarrow> (pstate \<times> frame list) option" where
  "close_object (InObject ms None # st) = push_value (JObject (rev ms)) st"
| "close_object _ = None"

fun set_key :: "token \<Rightarrow> frame list \<Rightarrow> (pstate \<times> frame list) option" where
  "set_key (TLit (JString k)) (InObject ms None # st) = Some (PColon, InObject ms (Some k) # st)"
| "set_key _ _ = None"

fun separator :: "frame list \<Rightarrow> (pstate \<times> frame list) option" where
  "separator (InArray vs # st) = Some (PValue, InArray vs # st)"
| "separator (InObject ms None # st) = Some (PKey, InObject ms None # st)"
| "separator _ = None"

fun parse_step :: "pstate \<Rightarrow> frame list \<Rightarrow> token \<Rightarrow> (pstate \<times> frame list) option" where
  "parse_step PValue st t = open_value t st"
| "parse_step PValueOrClose st t = (if t = TRBracket then close_array st else open_value t st)"
| "parse_step PKeyOrClose st t = (if t = TRBrace then close_object st else set_key t st)"
| "parse_step PKey st t = set_key t st"
| "parse_step PColon st t = (if t = TColon then Some (PValue, st) else None)"
| "parse_step PAfter st t =
     (if t = TComma then separator st
      else if t = TRBracket then close_array st
      else if t = TRBrace then close_object st
      else None)"
| "parse_step (PDone v) st t = None"

fun parse_tokens :: "pstate \<Rightarrow> frame list \<Rightarrow> token list \<Rightarrow> jsvalue option" where
  "parse_tokens (PDone v) st [] = Some v"
| "parse_tokens p st [] = None"
| "parse_tokens p st (t # ts) =
     (case parse_step p st t of
        None \<Rightarrow> None
      | Some (p', st') \<Rightarrow> parse_tokens p' st' ts)"

definition JSON_parse :: "jsstring \<Rightarrow> jsvalue option" where
  "JSON_parse text = (case lex text of None \<Rightarrow> None | Some ts \<Rightarrow> parse_tokens PValue [] ts)"


section \<open>Values at run time\<close>

text \<open>
  \<open>truthy\<close> is ToBoolean. A number is falsy when its double is zero; under
  round-to-nearest-even a literal rounds to zero exactly when its magnitude is at most
  \<open>2^-1075\<close>, half the least positive double.
\<close>

definition rounds_to_zero :: "nat \<Rightarrow> int \<Rightarrow> bool" where
  "rounds_to_zero m e \<longleftrightarrow> (if 0 \<le> e then m = 0 else m * 2 ^ 1075 \<le> 10 ^ nat (- e))"

fun truthy :: "jsvalue \<Rightarrow> bool" where
  "truthy JUndefined = False"
| "truthy JNull = False"
| "truthy (JBool b) = b"
| "truthy (JNumber neg m e) = (\<not> rounds_to_zero m e)"
| "truthy (JString s) = (s \<noteq> [])"
| "truthy (JArray vs) = True"
| "truthy (JObject ms) = True"

text \<open>\<^verbatim>\<open>a || b\<close>\<close>

definition or_else :: "jsvalue \<Rightarrow> jsvalue \<Rightarrow> jsvalue" where
  "or_else a b = (if truthy a then a else b)"

text \<open>
  Reading a property of a parsed value that is not \<^verbatim>\<open>null\<close>. Of duplicate keys
  the last one counts. The names read by the manager (\<^verbatim>\<open>type, subtype, content,
  tool_name, tool_input, result, error\<close>) are not defined on the prototypes of objects,
  arrays, strings, numbers or booleans, so everything but an own member is
  \<^verbatim>\<open>undefined\<close>. Reading a property of \<^verbatim>\<open>null\<close> throws; the caller tests for it.
\<close>

fun get_prop :: "jsvalue \<Rightarrow> jsstring \<Rightarrow> jsvalue" where
  "get_prop (JObject ms) k = (case map_of (rev ms) k of None \<Rightarrow> JUndefined | Some v \<Rightarrow> v)"
| "get_prop _ k = JUndefined"

section \<open>Sessions, messages and events\<close>

text \<open>
  The shared type declarations are not among the sources; the records hold the fields
  that \<^verbatim>\<open>claude.ts\<close> writes. A message's content is declared a string, but the code
  stores whatever value the decoded event carries, so it is a \<open>jsvalue\<close>. The field
  \<^verbatim>\<open>id\<close> is named after its record.
\<close>

datatype SessionStatus = Idle | Active | Stopped | Error

record Session =
  session_id :: jsstring
  worktreeId :: jsstring
  worktreePath :: jsstring
  status :: SessionStatus
  createdAt :: nat

datatype Role = User | Assistant | System

datatype MessageType = Text | ToolUse | ToolResult | ErrorMsg

record Message =
  message_id :: jsstring
  sessionId :: jsstring
  role :: Role
  content :: jsvalue
  timestamp :: nat
  message_type :: MessageType

text \<open>The events of the emitter, with their payload at the time of the call.\<close>

datatype event =
    session_created Session
  | session_updated Session
  | session_stopped jsstring
  | message_received Message
  | message_stream jsstring jsvalue MessageType
  | message_complete jsstring jsstring

text \<open>What the manager does to the outside, in order. Console output is left out.\<close>

datatype effect = Emit event | PtySpawn nat | PtyKill nat

section \<open>The state of the manager and of its processes\<close>

text \<open>
  A \<^verbatim>\<open>ProcessInfo\<close> is a mutable object shared between the map of the manager and the
  closures of the handlers of every PTY spawned for it, and it outlives its entry in the
  map. So the objects live in a store (\<open>infos\<close>, addressed by position), the map
  \<open>processes\<close> holds references in insertion order, and each PTY records the reference
  and the session id its handlers captured. A PTY is named by its position in \<open>ptys\<close>.
\<close>

record ProcessInfo =
  process :: "nat option"
  session :: Session
  buffer :: jsstring

record Pty =
  pty_file :: jsstring
  args :: "jsstring list"
  cwd :: jsstring
  handler_info :: nat
  handler_sessionId :: jsstring
  killed :: bool
  exited :: bool

record world =
  processes :: "(jsstring \<times> nat) list"
  infos :: "ProcessInfo list"
  ptys :: "Pty list"
  trace :: "effect list"
  ids_drawn :: nat

text \<open>
  What the environment supplies: the result of the k-th call of \<^verbatim>\<open>nanoid()\<close>, the
  clock read by the \<^verbatim>\<open>new Date()\<close> that follows it, the variable
  \<^verbatim>\<open>CLAUDE_PATH\<close>, the string conversion of a template literal (\<open>None\<close> when it throws a
  TypeError, as for an object whose \<^verbatim>\<open>toString\<close> and \<^verbatim>\<open>valueOf\<close> are not callable),
  and \<^verbatim>\<open>JSON.stringify(v, null, 2)\<close> (\<open>None\<close> for \<^verbatim>\<open>undefined\<close>).
\<close>

record runtime =
  nanoid :: "nat \<Rightarrow> jsstring"
  clock :: "nat \<Rightarrow> nat"
  CLAUDE_PATH :: "jsstring option"
  ToString :: "jsvalue \<Rightarrow> jsstring option"
  JSON_stringify :: "jsvalue \<Rightarrow> jsstring option"

text \<open>The outcome of \<^verbatim>\<open>ptySpawn\<close>: a PTY, or a thrown error with its rendering as a string.\<close>

datatype spawn_outcome = Spawned | SpawnThrows jsstring

datatype SendError = SessionNotFound

definition emit :: "event \<Rightarrow> world \<Rightarrow> world" where
  "emit e w = w\<lparr>trace := trace w @ [Emit e]\<rparr>"

definition set_status :: "nat \<Rightarrow> SessionStatus \<Rightarrow> world \<Rightarrow> world" where
  "set_status r st w =
     w\<lparr>infos := (infos w)[r := (infos w ! r)\<lparr>session := (session (infos w ! r))\<lparr>status := st\<rparr>\<rparr>]\<rparr>"

definition new_message ::
  "runtime \<Rightarrow> nat \<Rightarrow> jsstring \<Rightarrow> Role \<Rightarrow> jsvalue \<Rightarrow> MessageType \<Rightarrow> Message" where
  "new_message rt k sid r c t =
     \<lparr>message_id = nanoid rt k, sessionId = sid, role = r, content = c,
      timestamp = clock rt k, message_type = t\<rparr>"

section \<open>startSession\<close>

definition startSession :: "runtime \<Rightarrow> jsstring \<Rightarrow> jsstring \<Rightarrow> world \<Rightarrow> Session \<times> world" where
  "startSession rt wtId wtPath w =
     (let k = ids_drawn w;
          sid = nanoid rt k;
          s = \<lparr>session_id = sid, worktreeId = wtId, worktreePath = wtPath, status = Idle,
               createdAt = clock rt k\<rparr>;
          r = length (infos w);
          w1 = w\<lparr>ids_drawn := Suc k,
                 infos := infos w @ [\<lparr>process = None, session = s, buffer = []\<rparr>],
                 processes := AList.update sid r (processes w)\<rparr>
      in (s, emit (session_created s) w1))"

section \<open>processStreamEvent\<close>

text \<open>
  The body of the \<^verbatim>\<open>try\<close>, once the line is decoded: \<open>Inr\<close> when it completes,
  \<open>Inl\<close> when it throws, with the state reached by then (an id may have been drawn).
  \<^verbatim>\<open>switch\<close> compares with strict equality.
\<close>

definition dispatch_event :: "runtime \<Rightarrow> jsstring \<Rightarrow> jsvalue \<Rightarrow> world \<Rightarrow> world + world" where
  "dispatch_event rt sid ev w =
     (if ev = JNull then Inl w
      else if get_prop ev (js ''type'') = JString (js ''assistant'') then
        (if get_prop ev (js ''subtype'') = JString (js ''text'')
         then Inr (emit (message_stream sid (or_else (get_prop ev (js ''content'')) (JString [])) Text) w)
         else Inr w)
      else if get_prop ev (js ''type'') = JString (js ''tool_use'') then
        (let k = ids_drawn w; w1 = w\<lparr>ids_drawn := Suc k\<rparr> in
         case ToString rt (get_prop ev (js ''tool_name'')) of
           None \<Rightarrow> Inl w1
         | Some name \<Rightarrow>
             (let input = (case JSON_stringify rt (get_prop ev (js ''tool_input'')) of
                             None \<Rightarrow> js ''undefined'' | Some t \<Rightarrow> t)
              in Inr (emit (message_received
                       (new_message rt k sid Assistant
                          (JString (js ''Using tool: '' @ name @ [0x0A] @ input)) ToolUse)) w1)))
      else if get_prop ev (js ''type'') = JString (js ''tool_result'') then
        (let k = ids_drawn w in
         Inr (emit (message_received
                (new_message rt k sid System
                   (or_else (get_prop ev (js ''result'')) (JString [])) ToolResult))
              (w\<lparr>ids_drawn := Suc k\<rparr>)))
      else if get_prop ev (js ''type'') = JString (js ''result'') then
        (let k = ids_drawn w in
         Inr (emit (message_received
                (new_message rt k sid Assistant
                   (or_else (get_prop ev (js ''content'')) (JString [])) Text))
              (w\<lparr>ids_drawn := Suc k\<rparr>)))
      else if get_prop ev (js ''type'') = JString (js ''error'') then
        (let k = ids_drawn w in
         Inr (emit (message_received
                (new_message rt k sid System
                   (or_else (get_prop ev (js ''error'')) (JString (js ''Unknown error''))) ErrorMsg))
              (w\<lparr>ids_drawn := Suc k\<rparr>)))
      else Inr w)"

text \<open>The \<^verbatim>\<open>catch\<close> forwards the line as a text chunk, whatever was thrown.\<close>

definition processStreamEvent :: "runtime \<Rightarrow> jsstring \<Rightarrow> jsstring \<Rightarrow> world \<Rightarrow> world" where
  "processStreamEvent rt sid line w =
     (case JSON_parse line of
        None \<Rightarrow> emit (message_stream sid (JString line) Text) w
      | Some ev \<Rightarrow>
          (case dispatch_event rt sid ev w of
             Inl w' \<Rightarrow> emit (message_stream sid (JString line) Text) w'
           | Inr w' \<Rightarrow> w'))"

section \<open>sendMessage and the handlers of the PTY\<close>

text \<open>
  \<^verbatim>\<open>sendMessage\<close> is \<^verbatim>\<open>async\<close> with no \<^verbatim>\<open>await\<close>: its body runs to the end within
  the call, and its \<^verbatim>\<open>throw\<close> is the rejection of the returned promise (\<open>Inl\<close>). The
  options of the spawn that are constants (terminal name and size, \<^verbatim>\<open>CI\<close>,
  \<^verbatim>\<open>TERM\<close>) are not recorded.
\<close>

definition claudePath :: "runtime \<Rightarrow> jsstring" where
  "claudePath rt =
     (case CLAUDE_PATH rt of
        None \<Rightarrow> js ''claude''
      | Some p \<Rightarrow> if p \<noteq> [] then p else js ''claude'')"

definition sendMessage ::
  "runtime \<Rightarrow> spawn_outcome \<Rightarrow> jsstring \<Rightarrow> jsstring \<Rightarrow> world \<Rightarrow> SendError + world" where
  "sendMessage rt outcome sid message w =
     (case map_of (processes w) sid of
        None \<Rightarrow> Inl SessionNotFound
      | Some r \<Rightarrow>
          (let w1 = set_status r Active w;
               w2 = emit (session_updated (session (infos w1 ! r))) w1;
               k = ids_drawn w2;
               w3 = emit (message_received (new_message rt k sid User (JString message) Text))
                      (w2\<lparr>ids_drawn := Suc k\<rparr>)
           in case outcome of
                Spawned \<Rightarrow>
                  (let pid = length (ptys w3);
                       pty = \<lparr>pty_file = claudePath rt,
                              args = [js ''-p'', message, js ''--output-format'',
                                      js ''stream-json'', js ''--verbose''],
                              cwd = worktreePath (session (infos w3 ! r)),
                              handler_info = r, handler_sessionId = sid,
                              killed = False, exited = False\<rparr>;
                       w4 = w3\<lparr>ptys := ptys w3 @ [pty], trace := trace w3 @ [PtySpawn pid]\<rparr>
                   in Inr (w4\<lparr>infos := (infos w4)
                             [r := (infos w4 ! r)\<lparr>process := Some pid, buffer := []\<rparr>]\<rparr>))
              | SpawnThrows err \<Rightarrow>
                  (let k' = ids_drawn w3;
                       w4 = emit (message_received
                              (new_message rt k' sid System
                                 (JString (js ''Failed to start Claude Code: '' @ err)) ErrorMsg))
                              (w3\<lparr>ids_drawn := Suc k'\<rparr>);
                       w5 = set_status r Error w4
                   in Inr (emit (session_updated (session (infos w5 ! r))) w5))))"

text \<open>One line of the data handler: trim, strip the escape sequences, classify if not empty.\<close>

definition process_line :: "runtime \<Rightarrow> jsstring \<Rightarrow> jsstring \<Rightarrow> world \<Rightarrow> world" where
  "process_line rt sid line w =
     (let cleanLine = strip_ansi (trim line)
      in if cleanLine \<noteq> [] then processStreamEvent rt sid cleanLine w else w)"

text \<open>The data handler of PTY \<open>pid\<close>, called by the environment with a chunk of output.\<close>

definition onData :: "runtime \<Rightarrow> nat \<Rightarrow> jsstring \<Rightarrow> world \<Rightarrow> world" where
  "onData rt pid data w =
     (if pid < length (ptys w) then
        (let r = handler_info (ptys w ! pid);
             sid = handler_sessionId (ptys w ! pid);
             (lines, rest) = feed (buffer (infos w ! r)) data;
             w1 = w\<lparr>infos := (infos w)[r := (infos w ! r)\<lparr>buffer := rest\<rparr>]\<rparr>
         in fold (process_line rt sid) lines w1)
      else w)"

text \<open>The exit handler of PTY \<open>pid\<close>, called by the environment with the exit code.\<close>

definition onExit :: "runtime \<Rightarrow> nat \<Rightarrow> int \<Rightarrow> world \<Rightarrow> world" where
  "onExit rt pid exitCode w =
     (if pid < length (ptys w) then
        (let r = handler_info (ptys w ! pid);
             sid = handler_sessionId (ptys w ! pid);
             w0 = w\<lparr>ptys := (ptys w)[pid := (ptys w ! pid)\<lparr>exited := True\<rparr>]\<rparr>;
             w1 = (if trim (buffer (infos w0 ! r)) \<noteq> [] then
                     (let cleanBuffer = strip_ansi (trim (buffer (infos w0 ! r)))
                      in if cleanBuffer \<noteq> [] then processStreamEvent rt sid cleanBuffer w0
                         else w0)
                   else w0);
             w2 = set_status r (if exitCode = 0 then Idle else Error) w1;
             w3 = emit (session_updated (session (infos w2 ! r))) w2;
             k = ids_drawn w3
         in emit (message_complete sid (nanoid rt k)) (w3\<lparr>ids_drawn := Suc k\<rparr>))
      else w)"

section \<open>stopSession, getSession, getAllSessions, cleanup\<close>

text \<open>
  \<^verbatim>\<open>kill()\<close> signals the process; an exception it throws is caught and logged, and
  the code goes on the same way.
\<close>

definition kill :: "nat \<Rightarrow> world \<Rightarrow> world" where
  "kill pid w =
     w\<lparr>ptys := (ptys w)[pid := (ptys w ! pid)\<lparr>killed := True\<rparr>],
       trace := trace w @ [PtyKill pid]\<rparr>"

definition stopSession :: "jsstring \<Rightarrow> world \<Rightarrow> world" where
  "stopSession sid w =
     (case map_of (processes w) sid of
        None \<Rightarrow> w
      | Some r \<Rightarrow>
          (let w1 = (case process (infos w ! r) of None \<Rightarrow> w | Some pid \<Rightarrow> kill pid w);
               w2 = set_status r Stopped w1;
               w3 = emit (session_stopped sid) w2
           in w3\<lparr>processes := AList.delete sid (processes w3)\<rparr>))"

definition getSession :: "jsstring \<Rightarrow> world \<Rightarrow> Session option" where
  "getSession sid w = map_option (\<lambda>r. session (infos w ! r)) (map_of (processes w) sid)"

definition getAllSessions :: "world \<Rightarrow> Session list" where
  "getAllSessions w = map (\<lambda>(sid, r). session (infos w ! r)) (processes w)"

definition cleanup :: "world \<Rightarrow> world" where
  "cleanup w = fold stopSession (map fst (processes w)) w"

text \<open>The manager as constructed: no session, nothing emitted.\<close>

definition new_manager :: world where
  "new_manager = \<lparr>processes = [], infos = [], ptys = [], trace = [], ids_drawn = 0\<rparr>"

section \<open>Process Handles of a session, and sample states\<close>

text \<open>
  The PTYs that exist for a session: spawned with that session id in their handlers,
  neither exited nor signalled. The source keeps no such list; it is what the invariant
  "one Process Handle per session" counts.
\<close>

definition live_ptys :: "jsstring \<Rightarrow> world \<Rightarrow> nat list" where
  "live_ptys sid w =
     filter (\<lambda>pid. handler_sessionId (ptys w ! pid) = sid \<and>
                   \<not> exited (ptys w ! pid) \<and> \<not> killed (ptys w ! pid))
       [0..<length (ptys w)]"

text \<open>
  A sample environment, and the states reached from the new manager by
  \<^verbatim>\<open>startSession\<close>, then a first \<^verbatim>\<open>sendMessage\<close>, then a second one while the first
  subprocess is running.
\<close>

definition example_runtime :: runtime where
  "example_runtime =
     \<lparr>nanoid = (\<lambda>k. js ''id'' @ [of_nat k + 0x30]),
      clock = (\<lambda>k. 1700000000 + k),
      CLAUDE_PATH = None,
      ToString = (\<lambda>v. case v of JString s \<Rightarrow> Some s | _ \<Rightarrow> None),
      JSON_stringify = (\<lambda>v. None)\<rparr>"

definition example_idle :: world where
  "example_idle = snd (startSession example_runtime (js ''wt'') (js ''/repo'') new_manager)"

definition example_active :: world where
  "example_active =
     projr (sendMessage example_runtime Spawned (js ''id0'') (js ''hi'') example_idle)"

definition example_overlap :: world where
  "example_overlap =
     projr (sendMessage example_runtime Spawned (js ''id0'') (js ''again'') example_active)"

text \<open>A state with two sessions: the Active one of before, and a new Idle one.\<close>

definition example_two :: world where
  "example_two = snd (startSession example_runtime (js ''wt2'') (js ''/repo2'') example_active)"

text \<open>
  The same session after the second PTY has exited with code 0: the first PTY is still
  running, and the record still holds the second.
\<close>

definition example_orphan :: world where
  "example_orphan = onExit example_runtime 1 0 example_overlap"

section \<open>What ptySpawn does when the program cannot be executed\<close>

text \<open>
  \<^verbatim>\<open>node-pty\<close> is a dependency of the repository, not part of it. On a POSIX system
  its \<^verbatim>\<open>spawn\<close> calls \<^verbatim>\<open>forkpty\<close> and throws only when that fails. The program is
  executed in the child, after \<^verbatim>\<open>spawn\<close> has returned the handle: when \<^verbatim>\<open>execvp\<close>
  fails (no such file, permission denied), the child writes the line of
  \<^verbatim>\<open>perror("execvp(3) failed.")\<close> to the terminal, where the line feed comes out as
  CR LF, and exits with code 1.
\<close>

datatype exec_result = ExecRuns | ExecNoSuchFile | ExecPermissionDenied

datatype spawn_condition = ForkFails jsstring | Forked exec_result

definition ptySpawn_posix :: "spawn_condition \<Rightarrow> spawn_outcome" where
  "ptySpawn_posix c = (case c of ForkFails err \<Rightarrow> SpawnThrows err | Forked x \<Rightarrow> Spawned)"

definition failed_exec_output :: "exec_result \<Rightarrow> jsstring" where
  "failed_exec_output x =
     (case x of
        ExecRuns \<Rightarrow> []
      | ExecNoSuchFile \<Rightarrow> js ''execvp(3) failed.: No such file or directory'' @ [0x0D, 0x0A]
      | ExecPermissionDenied \<Rightarrow> js ''execvp(3) failed.: Permission denied'' @ [0x0D, 0x0A])"

definition failed_exec_code :: int where
  "failed_exec_code = 1"

section \<open>Properties of the line parser\<close>

lemma push_front_Cons [simp]: "push_front c (l # ls) = (c # l) # ls"
  by (simp add: push_front_def)

lemma split_nl_nonempty: "split_nl s \<noteq> []"
  by (induction s) (auto simp: push_front_def)

lemma split_nl_append:
  "split_nl (a @ b) = butlast (split_nl a) @ split_nl (last (split_nl a) @ b)"
proof (induction a)
  case Nil
  show ?case by simp
next
  case (Cons c cs)
  show ?case
  proof (cases "c = 0x0A")
    case True
    with Cons show ?thesis by (simp add: split_nl_nonempty)
  next
    case False
    show ?thesis
    proof (cases "split_nl cs")
      case Nil
      with split_nl_nonempty show ?thesis by blast
    next
      case (Cons l ls)
      note sp = this
      show ?thesis
      proof (cases ls)
        case Nil
        with sp False Cons.IH show ?thesis by simp
      next
        case (Cons l' ls')
        with sp False Cons.IH show ?thesis by simp
      qed
    qed
  qed
qed

lemma last_split_nl_no_newline: "0x0A \<notin> set (last (split_nl s))"
proof (induction s)
  case Nil
  show ?case by simp
next
  case (Cons c cs)
  show ?case
  proof (cases "split_nl cs")
    case Nil
    with split_nl_nonempty show ?thesis by blast
  next
    case (Cons l ls)
    with Cons.IH show ?thesis by (cases ls) auto
  qed
qed

lemma split_nl_no_newline: "0x0A \<notin> set s \<Longrightarrow> split_nl s = [s]"
  by (induction s) auto

lemma feed_chunks_append:
  "0x0A \<notin> set b0 \<Longrightarrow> feed_chunks b0 chunks = feed b0 (concat chunks)"
proof (induction chunks arbitrary: b0)
  case Nil
  then show ?case by (simp add: feed_def split_nl_no_newline)
next
  case (Cons d ds)
  let ?b = "last (split_nl (b0 @ d))"
  have "feed_chunks ?b ds = feed ?b (concat ds)"
    by (rule Cons.IH) (rule last_split_nl_no_newline)
  moreover have "split_nl ((b0 @ d) @ concat ds) =
      butlast (split_nl (b0 @ d)) @ split_nl (?b @ concat ds)"
    by (rule split_nl_append)
  ultimately show ?case
    by (simp add: feed_def Let_def split_nl_nonempty butlast_append)
qed

text \<open>
  C3. Chunk-boundary invariance: starting from the empty buffer that a spawn leaves,
  feeding any list of chunks one at a time gives the same complete lines, in the same
  order, and the same kept fragment as feeding their concatenation at once.
\<close>

theorem chunk_boundary_invariance:
  "feed_chunks [] chunks = feed [] (concat chunks)"
  by (rule feed_chunks_append) simp

section \<open>The data handler under chunking\<close>

lemma processStreamEvent_infos:
  "processStreamEvent rt sid l (w\<lparr>infos := xs\<rparr>) = (processStreamEvent rt sid l w)\<lparr>infos := xs\<rparr>"
  by (simp add: processStreamEvent_def dispatch_event_def emit_def Let_def
      split: option.splits)

lemma process_line_infos:
  "process_line rt sid l (w\<lparr>infos := xs\<rparr>) = (process_line rt sid l w)\<lparr>infos := xs\<rparr>"
  by (simp add: process_line_def Let_def processStreamEvent_infos)

lemma fold_process_line_infos:
  "fold (process_line rt sid) ls (w\<lparr>infos := xs\<rparr>) = (fold (process_line rt sid) ls w)\<lparr>infos := xs\<rparr>"
  by (induction ls arbitrary: w) (simp_all add: process_line_infos)

lemma processStreamEvent_keeps:
  "infos (processStreamEvent rt sid l w) = infos w \<and> ptys (processStreamEvent rt sid l w) = ptys w"
  by (simp add: processStreamEvent_def dispatch_event_def emit_def Let_def
      split: option.splits)

lemma fold_process_line_keeps:
  "infos (fold (process_line rt sid) ls w) = infos w \<and> ptys (fold (process_line rt sid) ls w) = ptys w"
  by (induction ls arbitrary: w) (simp_all add: process_line_def Let_def processStreamEvent_keeps)

lemma onData_append:
  assumes "pid < length (ptys w)" and "handler_info (ptys w ! pid) < length (infos w)"
  shows "onData rt pid d2 (onData rt pid d1 w) = onData rt pid (d1 @ d2) w"
proof -
  let ?r = "handler_info (ptys w ! pid)"
  let ?b = "buffer (infos w ! ?r)"
  have sp: "split_nl (?b @ d1 @ d2) =
      butlast (split_nl (?b @ d1)) @ split_nl (last (split_nl (?b @ d1)) @ d2)"
    using split_nl_append [of "?b @ d1" d2] by simp
  show ?thesis
    using assms
    by (simp add: onData_def feed_def Let_def fold_process_line_infos fold_process_line_keeps
        sp split_nl_nonempty butlast_append)
qed

lemma onData_keeps:
  "ptys (onData rt pid d w) = ptys w \<and> length (infos (onData rt pid d w)) = length (infos w)"
  by (simp add: onData_def Let_def fold_process_line_keeps split: prod.splits)

lemma onData_empty:
  assumes "pid < length (ptys w)" and "handler_info (ptys w ! pid) < length (infos w)"
    and "0x0A \<notin> set (buffer (infos w ! handler_info (ptys w ! pid)))"
  shows "onData rt pid [] w = w"
  using assms by (simp add: onData_def feed_def split_nl_no_newline)

lemma onData_buffer_no_newline:
  assumes "pid < length (ptys w)" and "handler_info (ptys w ! pid) < length (infos w)"
  shows "0x0A \<notin> set (buffer (infos (onData rt pid d w) ! handler_info (ptys w ! pid)))"
  using assms
  by (simp add: onData_def feed_def Let_def fold_process_line_keeps last_split_nl_no_newline)

text \<open>
  The same holds for the handler as a whole: called chunk by chunk, it reaches the
  state, trace of events included, that one call with the concatenation reaches.
\<close>

lemma onData_chunks:
  assumes "pid < length (ptys w)" and "handler_info (ptys w ! pid) < length (infos w)"
    and "0x0A \<notin> set (buffer (infos w ! handler_info (ptys w ! pid)))"
  shows "fold (onData rt pid) chunks w = onData rt pid (concat chunks) w"
  using assms
proof (induction chunks arbitrary: w)
  case Nil
  then show ?case by (simp add: onData_empty)
next
  case (Cons d ds)
  let ?w = "onData rt pid d w"
  have "fold (onData rt pid) ds ?w = onData rt pid (concat ds) ?w"
    using Cons.prems(1,2) onData_buffer_no_newline [OF Cons.prems(1,2), of rt d]
    by (intro Cons.IH) (simp_all add: onData_keeps)
  with Cons.prems show ?case by (simp add: onData_append)
qed


section \<open>Evaluating the sample states\<close>

lemma example_idle_eq:
  "example_idle =
     \<lparr>processes = [(js ''id0'', 0)],
      infos = [\<lparr>process = None,
                session = \<lparr>session_id = js ''id0'', worktreeId = js ''wt'',
                           worktreePath = js ''/repo'', status = Idle,
                           createdAt = 1700000000\<rparr>,
                buffer = []\<rparr>],
      ptys = [],
      trace = [Emit (session_created
                 \<lparr>session_id = js ''id0'', worktreeId = js ''wt'',
                  worktreePath = js ''/repo'', status = Idle, createdAt = 1700000000\<rparr>)],
      ids_drawn = 1\<rparr>"
  by (simp add: example_idle_def startSession_def example_runtime_def new_manager_def emit_def
      Let_def js_def)

lemma example_active_eq:
  "example_active =
     \<lparr>processes = [(js ''id0'', 0)],
      infos = [\<lparr>process = Some 0,
                session = \<lparr>session_id = js ''id0'', worktreeId = js ''wt'',
                           worktreePath = js ''/repo'', status = Active,
                           createdAt = 1700000000\<rparr>,
                buffer = []\<rparr>],
      ptys = [\<lparr>pty_file = js ''claude'',
               args = [js ''-p'', js ''hi'', js ''--output-format'', js ''stream-json'',
                       js ''--verbose''],
               cwd = js ''/repo'', handler_info = 0, handler_sessionId = js ''id0'',
               killed = False, exited = False\<rparr>],
      trace = [Emit (session_created
                 \<lparr>session_id = js ''id0'', worktreeId = js ''wt'',
                  worktreePath = js ''/repo'', status = Idle, createdAt = 1700000000\<rparr>),
               Emit (session_updated
                 \<lparr>session_id = js ''id0'', worktreeId = js ''wt'',
                  worktreePath = js ''/repo'', status = Active, createdAt = 1700000000\<rparr>),
               Emit (message_received
                 \<lparr>message_id = js ''id1'', sessionId = js ''id0'', role = User,
                  content = JString (js ''hi''), timestamp = 1700000001, message_type = Text\<rparr>),
               PtySpawn 0],
      ids_drawn = 2\<rparr>"
  unfolding example_active_def example_idle_eq
  by (simp add: sendMessage_def example_runtime_def claudePath_def set_status_def emit_def
      new_message_def Let_def js_def)

lemma send_again:
  "sendMessage example_runtime Spawned (js ''id0'') (js ''again'') example_active =
     Inr example_overlap"
  unfolding example_overlap_def example_active_eq
  by (simp add: sendMessage_def Let_def js_def)

lemma example_overlap_eq:
  "example_overlap =
     \<lparr>processes = [(js ''id0'', 0)],
      infos = [\<lparr>process = Some 1,
                session = \<lparr>session_id = js ''id0'', worktreeId = js ''wt'',
                           worktreePath = js ''/repo'', status = Active,
                           createdAt = 1700000000\<rparr>,
                buffer = []\<rparr>],
      ptys = [\<lparr>pty_file = js ''claude'',
               args = [js ''-p'', js ''hi'', js ''--output-format'', js ''stream-json'',
                       js ''--verbose''],
               cwd = js ''/repo'', handler_info = 0, handler_sessionId = js ''id0'',
               killed = False, exited = False\<rparr>,
              \<lparr>pty_file = js ''claude'',
               args = [js ''-p'', js ''again'', js ''--output-format'', js ''stream-json'',
                       js ''--verbose''],
               cwd = js ''/repo'', handler_info = 0, handler_sessionId = js ''id0'',
               killed = False, exited = False\<rparr>],
      trace = [Emit (session_created
                 \<lparr>session_id = js ''id0'', worktreeId = js ''wt'',
                  worktreePath = js ''/repo'', status = Idle, createdAt = 1700000000\<rparr>),
               Emit (session_updated
                 \<lparr>session_id = js ''id0'', worktreeId = js ''wt'',
                  worktreePath = js ''/repo'', status = Active, createdAt = 1700000000\<rparr>),
               Emit (message_received
                 \<lparr>message_id = js ''id1'', sessionId = js ''id0'', role = User,
                  content = JString (js ''hi''), timestamp = 1700000001, message_type = Text\<rparr>),
               PtySpawn 0,
               Emit (session_updated
                 \<lparr>session_id = js ''id0'', worktreeId = js ''wt'',
                  worktreePath = js ''/repo'', status = Active, createdAt = 1700000000\<rparr>),
               Emit (message_received
                 \<lparr>message_id = js ''id2'', sessionId = js ''id0'', role = User,
                  content = JString (js ''again''), timestamp = 1700000002,
                  message_type = Text\<rparr>),
               PtySpawn 1],
      ids_drawn = 3\<rparr>"
  unfolding example_overlap_def example_active_eq
  by (simp add: sendMessage_def example_runtime_def claudePath_def set_status_def emit_def
      new_message_def Let_def js_def)

section \<open>sendMessage on a registered session\<close>

lemma sendMessage_spawned:
  assumes "map_of (processes w) sid = Some r" and "r < length (infos w)"
  shows "sendMessage rt Spawned sid msg w =
    Inr (w\<lparr>infos := (infos w)[r := (infos w ! r)
                 \<lparr>session := (session (infos w ! r))\<lparr>status := Active\<rparr>,
                  process := Some (length (ptys w)), buffer := []\<rparr>],
           ptys := ptys w @ [\<lparr>pty_file = claudePath rt,
                 args = [js ''-p'', msg, js ''--output-format'', js ''stream-json'', js ''--verbose''],
                 cwd = worktreePath (session (infos w ! r)), handler_info = r,
                 handler_sessionId = sid, killed = False, exited = False\<rparr>],
           trace := trace w @
             [Emit (session_updated ((session (infos w ! r))\<lparr>status := Active\<rparr>)),
              Emit (message_received (new_message rt (ids_drawn w) sid User (JString msg) Text)),
              PtySpawn (length (ptys w))],
           ids_drawn := Suc (ids_drawn w)\<rparr>)"
  using assms
  by (simp add: sendMessage_def set_status_def emit_def Let_def)

lemma sendMessage_spawn_throws:
  assumes "map_of (processes w) sid = Some r" and "r < length (infos w)"
  shows "sendMessage rt (SpawnThrows err) sid msg w =
    Inr (w\<lparr>infos := (infos w)[r := (infos w ! r)\<lparr>session := (session (infos w ! r))\<lparr>status := Error\<rparr>\<rparr>],
           trace := trace w @
             [Emit (session_updated ((session (infos w ! r))\<lparr>status := Active\<rparr>)),
              Emit (message_received (new_message rt (ids_drawn w) sid User (JString msg) Text)),
              Emit (message_received (new_message rt (Suc (ids_drawn w)) sid System
                      (JString (js ''Failed to start Claude Code: '' @ err)) ErrorMsg)),
              Emit (session_updated ((session (infos w ! r))\<lparr>status := Error\<rparr>))],
           ids_drawn := Suc (Suc (ids_drawn w))\<rparr>)"
  using assms
  by (simp add: sendMessage_def set_status_def emit_def Let_def)

text \<open>
  C1, as the code has it. A send to a session whose record holds a Process Handle does
  not fail: it emits the update and the user message, spawns a further PTY and makes it
  the handle of the record, with an empty buffer. The earlier PTY is not signalled and
  keeps its handlers on the same record; the record itself refers to one handle, the
  latest.
\<close>

theorem send_while_active_spawns_again:
  assumes "map_of (processes w) sid = Some r" and "r < length (infos w)"
    and "process (infos w ! r) = Some p" and "p < length (ptys w)"
  shows "\<exists>w'. sendMessage rt Spawned sid msg w = Inr w' \<and>
           process (infos w' ! r) = Some (length (ptys w)) \<and>
           buffer (infos w' ! r) = [] \<and>
           status (session (infos w' ! r)) = Active \<and>
           length (ptys w') = Suc (length (ptys w)) \<and>
           ptys w' ! p = ptys w ! p \<and>
           handler_info (ptys w' ! length (ptys w)) = r \<and>
           handler_sessionId (ptys w' ! length (ptys w)) = sid \<and>
           trace w' = trace w @
             [Emit (session_updated ((session (infos w ! r))\<lparr>status := Active\<rparr>)),
              Emit (message_received (new_message rt (ids_drawn w) sid User (JString msg) Text)),
              PtySpawn (length (ptys w))]"
  using assms by (simp add: sendMessage_spawned nth_append)

theorem send_while_active_spawns_again_witness:
  "map_of (processes example_active) (js ''id0'') = Some 0 \<and>
   0 < length (infos example_active) \<and>
   process (infos example_active ! 0) = Some 0 \<and>
   0 < length (ptys example_active) \<and>
   status (session (infos example_active ! 0)) = Active \<and>
   (\<exists>w'. sendMessage example_runtime Spawned (js ''id0'') (js ''again'') example_active = Inr w' \<and>
         process (infos w' ! 0) = Some 1 \<and>
         length (ptys w') = 2 \<and>
         ptys w' ! 0 = ptys example_active ! 0 \<and>
         handler_info (ptys w' ! 1) = 0)"
  using send_while_active_spawns_again
    [of example_active "js ''id0''" 0 0 example_runtime "js ''again''"]
  by (auto simp add: example_active_eq)

text \<open>
  C1, as the spec states it, fails: the session of \<open>example_active\<close> is Active with one
  live PTY; a second send returns normally and leaves two live PTYs for the session.
\<close>

theorem send_while_active_counterexample:
  "status (session (infos example_active ! 0)) = Active \<and>
   live_ptys (js ''id0'') example_active = [0] \<and>
   sendMessage example_runtime Spawned (js ''id0'') (js ''again'') example_active =
     Inr example_overlap \<and>
   live_ptys (js ''id0'') example_overlap = [0, 1]"
proof (intro conjI)
  show "status (session (infos example_active ! 0)) = Active"
    by (simp add: example_active_eq)
  show "live_ptys (js ''id0'') example_active = [0]"
    by (simp add: example_active_eq live_ptys_def)
  show "sendMessage example_runtime Spawned (js ''id0'') (js ''again'') example_active =
      Inr example_overlap"
    by (rule send_again)
  show "live_ptys (js ''id0'') example_overlap = [0, 1]"
    by (simp add: example_overlap_eq live_ptys_def upt_rec)
qed

text \<open>
  C6. For a registered session, send returns normally and its first two effects are the
  update to Active and the User message carrying the text; the spawn comes after them,
  and output events can only come from the handlers of the PTY it creates. When the
  spawn succeeds the status is left Active.
\<close>

theorem send_emits_user_message_first:
  assumes "map_of (processes w) sid = Some r" and "r < length (infos w)"
  shows "\<exists>w' rest. sendMessage rt outcome sid msg w = Inr w' \<and>
           trace w' = trace w @
             [Emit (session_updated ((session (infos w ! r))\<lparr>status := Active\<rparr>)),
              Emit (message_received
                \<lparr>message_id = nanoid rt (ids_drawn w), sessionId = sid, role = User,
                 content = JString msg, timestamp = clock rt (ids_drawn w),
                 message_type = Text\<rparr>)] @ rest \<and>
           (outcome = Spawned \<longrightarrow>
              rest = [PtySpawn (length (ptys w))] \<and>
              status (session (infos w' ! r)) = Active)"
proof (cases outcome)
  case Spawned
  with assms show ?thesis by (simp add: sendMessage_spawned new_message_def)
next
  case (SpawnThrows err)
  with assms show ?thesis by (simp add: sendMessage_spawn_throws new_message_def)
qed

theorem send_emits_user_message_first_witness:
  "map_of (processes example_idle) (js ''id0'') = Some 0 \<and>
   0 < length (infos example_idle) \<and>
   (\<exists>w'. sendMessage example_runtime Spawned (js ''id0'') (js ''hi'') example_idle = Inr w' \<and>
      trace w' = trace example_idle @
        [Emit (session_updated
           \<lparr>session_id = js ''id0'', worktreeId = js ''wt'', worktreePath = js ''/repo'',
            status = Active, createdAt = 1700000000\<rparr>),
         Emit (message_received
           \<lparr>message_id = js ''id1'', sessionId = js ''id0'', role = User,
            content = JString (js ''hi''), timestamp = 1700000001, message_type = Text\<rparr>),
         PtySpawn 0] \<and>
      status (session (infos w' ! 0)) = Active)"
  using send_emits_user_message_first
    [of example_idle "js ''id0''" 0 example_runtime Spawned "js ''hi''"]
  by (auto simp add: example_idle_eq example_runtime_def js_def)

section \<open>The classifier on single lines\<close>

lemmas json_eval = JSON_parse_def js_def is_json_ws_def is_digit_def cons_char_def
  lex_number_def lex_fraction_def lex_exponent_def digits_value_def

lemma parse_result_line:
  \<open>JSON_parse (js ''{"type":"result","content":"42"}'') =
     Some (JObject [(js ''type'', JString (js ''result'')), (js ''content'', JString (js ''42''))])\<close>
  by (simp add: json_eval)

lemma parse_123: "JSON_parse (js ''123'') = Some (JNumber False 123 0)"
  by (simp add: json_eval)

lemma parse_hello_string: \<open>JSON_parse (js ''"hello"'') = Some (JString (js ''hello''))\<close>
  by (simp add: json_eval)

lemma parse_hello: "JSON_parse (js ''hello'') = None"
  by (simp add: json_eval)

lemma parse_hello_world: "JSON_parse (js ''hello world'') = None"
  by (simp add: json_eval)

lemma parse_erase_line: "JSON_parse [0x1B, 0x5B, 0x32, 0x4B] = None"
  by (simp add: json_eval)

lemma parse_space: "JSON_parse [0x20] = None"
  by (simp add: json_eval)

text \<open>
  C7. A line that \<^verbatim>\<open>JSON.parse\<close> rejects is forwarded whole as one text chunk: the
  classifier is a total function, the state changes by that one event only, and no id
  is drawn.
\<close>

theorem decode_failure_forwards_line:
  "JSON_parse line = None \<Longrightarrow>
     processStreamEvent rt sid line w =
       w\<lparr>trace := trace w @ [Emit (message_stream sid (JString line) Text)]\<rparr>"
  by (simp add: processStreamEvent_def emit_def)

theorem decode_failure_forwards_line_witness:
  "JSON_parse (js ''hello world'') = None \<and>
   processStreamEvent example_runtime (js ''id0'') (js ''hello world'') example_active =
     example_active\<lparr>trace := trace example_active @
       [Emit (message_stream (js ''id0'') (JString (js ''hello world'')) Text)]\<rparr>"
  using decode_failure_forwards_line
    [of "js ''hello world''" example_runtime "js ''id0''" example_active]
  by (simp add: parse_hello_world)

text \<open>
  C9. The lines \<^verbatim>\<open>123\<close> and \<^verbatim>\<open>"hello"\<close> decode (to a number and to a string), carry
  no \<^verbatim>\<open>type\<close>, and leave the state as it was: no event. The text \<^verbatim>\<open>hello\<close> without
  quotes does not decode and is forwarded as a text chunk.
\<close>

theorem undiscriminated_json_dropped:
  \<open>JSON_parse (js ''123'') = Some (JNumber False 123 0) \<and>
   processStreamEvent rt sid (js ''123'') w = w \<and>
   JSON_parse (js ''"hello"'') = Some (JString (js ''hello'')) \<and>
   processStreamEvent rt sid (js ''"hello"'') w = w \<and>
   JSON_parse (js ''hello'') = None \<and>
   processStreamEvent rt sid (js ''hello'') w =
     w\<lparr>trace := trace w @ [Emit (message_stream sid (JString (js ''hello'')) Text)]\<rparr>\<close>
  by (simp add: parse_123 parse_hello_string parse_hello processStreamEvent_def
      dispatch_event_def emit_def)

text \<open>
  C2 fails on the code. The pattern ends in the letter \<open>m\<close>, so the sequence
  \<^verbatim>\<open>ESC [ 2 K\<close> (erase line) stays in the line and is forwarded as a text chunk. And
  the line is trimmed before the sequences are removed, not after: of the line
  \<^verbatim>\<open>ESC [ 0 m SP ESC [ 0 m\<close> the space between the two sequences is left and forwarded
  as a chunk. A line made of one such sequence between spaces gives no event.
\<close>

theorem csi_sequence_not_removed:
  "process_line rt sid [0x1B, 0x5B, 0x32, 0x4B] w =
     w\<lparr>trace := trace w @ [Emit (message_stream sid (JString [0x1B, 0x5B, 0x32, 0x4B]) Text)]\<rparr> \<and>
   process_line rt sid [0x1B, 0x5B, 0x30, 0x6D, 0x20, 0x1B, 0x5B, 0x30, 0x6D] w =
     w\<lparr>trace := trace w @ [Emit (message_stream sid (JString [0x20]) Text)]\<rparr> \<and>
   process_line rt sid [0x20, 0x1B, 0x5B, 0x30, 0x6D, 0x20] w = w"
  by (simp add: process_line_def trim_def is_js_space_def is_sgr_param_def
      processStreamEvent_def parse_erase_line parse_space emit_def)

section \<open>A result line, then exit\<close>

lemma feed_result_line:
  \<open>feed [] (js ''{"type":"result","content":"42"}'' @ [0x0A]) =
     ([js ''{"type":"result","content":"42"}''], [])\<close>
  by (simp add: feed_def js_def)

lemma feed_result_line_unterminated:
  \<open>feed [] (js ''{"type":"result","content":"42"}'') =
     ([], js ''{"type":"result","content":"42"}'')\<close>
  by (simp add: feed_def js_def)

lemma clean_result_line:
  \<open>strip_ansi (trim (js ''{"type":"result","content":"42"}'')) =
     js ''{"type":"result","content":"42"}''\<close>
  \<open>trim (js ''{"type":"result","content":"42"}'') \<noteq> []\<close>
  \<open>js ''{"type":"result","content":"42"}'' \<noteq> []\<close>
  by (simp_all add: trim_def is_js_space_def js_def)

lemma dispatch_result_line:
  "dispatch_event rt sid
     (JObject [(js ''type'', JString (js ''result'')), (js ''content'', JString (js ''42''))]) w =
   Inr (w\<lparr>trace := trace w @ [Emit (message_received
          \<lparr>message_id = nanoid rt (ids_drawn w), sessionId = sid, role = Assistant,
           content = JString (js ''42''), timestamp = clock rt (ids_drawn w),
           message_type = Text\<rparr>)],
        ids_drawn := Suc (ids_drawn w)\<rparr>)"
  by (simp add: dispatch_event_def js_def or_else_def new_message_def emit_def Let_def)

lemma process_result_line:
  \<open>processStreamEvent rt sid (js ''{"type":"result","content":"42"}'') w =
   w\<lparr>trace := trace w @ [Emit (message_received
          \<lparr>message_id = nanoid rt (ids_drawn w), sessionId = sid, role = Assistant,
           content = JString (js ''42''), timestamp = clock rt (ids_drawn w),
           message_type = Text\<rparr>)],
        ids_drawn := Suc (ids_drawn w)\<rparr>\<close>
  by (simp only: processStreamEvent_def parse_result_line dispatch_result_line option.case sum.case)

text \<open>
  C4. A PTY whose record has an empty buffer outputs the one line
  \<^verbatim>\<open>{"type":"result","content":"42"}\<close>, with or without a line feed behind it, and exits
  with code 0. The handlers emit, in this order and nothing else: one Assistant message
  of type text with content 42, the update of the session to Idle, and one completion
  marker whose id is the next draw of the id generator after the one that named the
  message. The status is Idle afterwards.
\<close>

theorem result_line_then_exit:
  assumes "pid < length (ptys w)"
    and "handler_info (ptys w ! pid) = r"
    and "handler_sessionId (ptys w ! pid) = sid"
    and "r < length (infos w)"
    and "buffer (infos w ! r) = []"
    and \<open>data = js ''{"type":"result","content":"42"}'' @ [0x0A] \<or>
         data = js ''{"type":"result","content":"42"}''\<close>
  shows "trace (onExit rt pid 0 (onData rt pid data w)) =
      trace w @
      [Emit (message_received
         \<lparr>message_id = nanoid rt (ids_drawn w), sessionId = sid, role = Assistant,
          content = JString (js ''42''), timestamp = clock rt (ids_drawn w),
          message_type = Text\<rparr>),
       Emit (session_updated ((session (infos w ! r))\<lparr>status := Idle\<rparr>)),
       Emit (message_complete sid (nanoid rt (Suc (ids_drawn w))))] \<and>
    status (session (infos (onExit rt pid 0 (onData rt pid data w)) ! r)) = Idle"
proof -
  from assms(6) show ?thesis
  proof
    assume d: \<open>data = js ''{"type":"result","content":"42"}'' @ [0x0A]\<close>
    have 1: "onData rt pid data w =
        w\<lparr>infos := (infos w)[r := (infos w ! r)\<lparr>buffer := []\<rparr>],
          trace := trace w @ [Emit (message_received
            \<lparr>message_id = nanoid rt (ids_drawn w), sessionId = sid, role = Assistant,
             content = JString (js ''42''), timestamp = clock rt (ids_drawn w),
             message_type = Text\<rparr>)],
          ids_drawn := Suc (ids_drawn w)\<rparr>"
      using assms(1-5) unfolding d onData_def
      by (simp add: feed_result_line process_line_def clean_result_line process_result_line)
    show ?thesis
      unfolding 1 using assms(1-5)
      by (simp add: onExit_def Let_def trim_def set_status_def emit_def)
  next
    assume d: \<open>data = js ''{"type":"result","content":"42"}''\<close>
    have 1: \<open>onData rt pid data w =
        w\<lparr>infos := (infos w)[r := (infos w ! r)
               \<lparr>buffer := js ''{"type":"result","content":"42"}''\<rparr>]\<rparr>\<close>
      using assms(1-5) unfolding d onData_def
      by (simp add: feed_result_line_unterminated)
    show ?thesis
      unfolding 1 using assms(1-5)
      by (simp add: onExit_def Let_def clean_result_line process_result_line set_status_def
          emit_def)
  qed
qed

theorem result_line_then_exit_witness:
  \<open>0 < length (ptys example_active) \<and>
   handler_info (ptys example_active ! 0) = 0 \<and>
   handler_sessionId (ptys example_active ! 0) = js ''id0'' \<and>
   0 < length (infos example_active) \<and>
   buffer (infos example_active ! 0) = [] \<and>
   trace (onExit example_runtime 0 0
            (onData example_runtime 0 (js ''{"type":"result","content":"42"}'' @ [0x0A])
               example_active)) =
     trace example_active @
     [Emit (message_received
        \<lparr>message_id = js ''id2'', sessionId = js ''id0'', role = Assistant,
         content = JString (js ''42''), timestamp = 1700000002, message_type = Text\<rparr>),
      Emit (session_updated
        \<lparr>session_id = js ''id0'', worktreeId = js ''wt'', worktreePath = js ''/repo'',
         status = Idle, createdAt = 1700000000\<rparr>),
      Emit (message_complete (js ''id0'') (js ''id3''))] \<and>
   status (session (infos (onExit example_runtime 0 0
            (onData example_runtime 0 (js ''{"type":"result","content":"42"}'' @ [0x0A])
               example_active)) ! 0)) = Idle \<and>
   trace (onExit example_runtime 0 0
            (onData example_runtime 0 (js ''{"type":"result","content":"42"}'')
               example_active)) =
     trace example_active @
     [Emit (message_received
        \<lparr>message_id = js ''id2'', sessionId = js ''id0'', role = Assistant,
         content = JString (js ''42''), timestamp = 1700000002, message_type = Text\<rparr>),
      Emit (session_updated
        \<lparr>session_id = js ''id0'', worktreeId = js ''wt'', worktreePath = js ''/repo'',
         status = Idle, createdAt = 1700000000\<rparr>),
      Emit (message_complete (js ''id0'') (js ''id3''))]\<close>
proof -
  have h: "0 < length (ptys example_active)" "handler_info (ptys example_active ! 0) = 0"
    "handler_sessionId (ptys example_active ! 0) = js ''id0''"
    "0 < length (infos example_active)" "buffer (infos example_active ! 0) = []"
    by (simp_all add: example_active_eq)
  have v: "nanoid example_runtime (ids_drawn example_active) = js ''id2''"
    "nanoid example_runtime (Suc (ids_drawn example_active)) = js ''id3''"
    "clock example_runtime (ids_drawn example_active) = 1700000002"
    "(session (infos example_active ! 0))\<lparr>status := Idle\<rparr> =
       \<lparr>session_id = js ''id0'', worktreeId = js ''wt'', worktreePath = js ''/repo'',
        status = Idle, createdAt = 1700000000\<rparr>"
    by (simp_all add: example_active_eq example_runtime_def js_def)
  from result_line_then_exit
      [OF h, of \<open>js ''{"type":"result","content":"42"}'' @ [0x0A]\<close> example_runtime]
    result_line_then_exit
      [OF h, of \<open>js ''{"type":"result","content":"42"}''\<close> example_runtime]
    h show ?thesis
    by (simp only: v) simp
qed

section \<open>A program that cannot be executed\<close>

lemma send_missing_binary:
  "sendMessage example_runtime (ptySpawn_posix (Forked ExecNoSuchFile)) (js ''id0'') (js ''hi'')
     example_idle = Inr example_active"
  unfolding example_active_def example_idle_eq
  by (simp add: sendMessage_def ptySpawn_posix_def Let_def js_def)

lemma feed_exec_failure:
  "feed [] (failed_exec_output ExecNoSuchFile) =
     ([js ''execvp(3) failed.: No such file or directory'' @ [0x0D]], [])"
  by (simp add: feed_def failed_exec_output_def js_def)

lemma clean_exec_failure:
  "strip_ansi (trim (js ''execvp(3) failed.: No such file or directory'' @ [0x0D])) =
     js ''execvp(3) failed.: No such file or directory''"
  by (simp add: trim_def is_js_space_def js_def)

lemma parse_exec_failure:
  "JSON_parse (js ''execvp(3) failed.: No such file or directory'') = None"
  by (simp add: json_eval)

lemma exec_failure_line_nonempty:
  "js ''execvp(3) failed.: No such file or directory'' \<noteq> []"
  by (simp add: js_def)

lemma onData_exec_failure:
  "onData example_runtime 0 (failed_exec_output ExecNoSuchFile) example_active =
     example_active\<lparr>trace := trace example_active @
       [Emit (message_stream (js ''id0'')
          (JString (js ''execvp(3) failed.: No such file or directory'')) Text)]\<rparr>"
proof -
  have h: "ptys example_active \<noteq> []" "handler_info (ptys example_active ! 0) = 0"
    "handler_sessionId (ptys example_active ! 0) = js ''id0''"
    "buffer (infos example_active ! 0) = []"
    "(infos example_active)[0 := (infos example_active ! 0)\<lparr>buffer := []\<rparr>] =
       infos example_active"
    by (simp_all add: example_active_eq)
  show ?thesis
    unfolding onData_def
    by (simp add: h feed_exec_failure process_line_def clean_exec_failure
        exec_failure_line_nonempty processStreamEvent_def parse_exec_failure emit_def)
qed

text \<open>
  C8 fails on the code. With no program to execute, \<^verbatim>\<open>ptySpawn\<close> does not throw, so
  the \<^verbatim>\<open>catch\<close> that would emit the message "Failed to start Claude Code" is not
  entered: send returns with the status Active, and its effects are the update, the
  User message and the spawn, with no message of type error. What follows comes from the
  handlers: the child's complaint forwarded as a text chunk, then, at exit with code 1,
  the update to Error and the completion marker.
\<close>

theorem missing_binary_not_reported:
  "ptySpawn_posix (Forked ExecNoSuchFile) = Spawned \<and>
   ptySpawn_posix (Forked ExecPermissionDenied) = Spawned \<and>
   sendMessage example_runtime (ptySpawn_posix (Forked ExecNoSuchFile)) (js ''id0'') (js ''hi'')
     example_idle = Inr example_active \<and>
   status (session (infos example_active ! 0)) = Active \<and>
   trace example_active =
     trace example_idle @
     [Emit (session_updated
        \<lparr>session_id = js ''id0'', worktreeId = js ''wt'', worktreePath = js ''/repo'',
         status = Active, createdAt = 1700000000\<rparr>),
      Emit (message_received
        \<lparr>message_id = js ''id1'', sessionId = js ''id0'', role = User,
         content = JString (js ''hi''), timestamp = 1700000001, message_type = Text\<rparr>),
      PtySpawn 0] \<and>
   trace (onExit example_runtime 0 failed_exec_code
            (onData example_runtime 0 (failed_exec_output ExecNoSuchFile) example_active)) =
     trace example_active @
     [Emit (message_stream (js ''id0'')
        (JString (js ''execvp(3) failed.: No such file or directory'')) Text),
      Emit (session_updated
        \<lparr>session_id = js ''id0'', worktreeId = js ''wt'', worktreePath = js ''/repo'',
         status = Error, createdAt = 1700000000\<rparr>),
      Emit (message_complete (js ''id0'') (js ''id2''))]"
proof (intro conjI)
  show "ptySpawn_posix (Forked ExecNoSuchFile) = Spawned"
    by (simp add: ptySpawn_posix_def)
  show "ptySpawn_posix (Forked ExecPermissionDenied) = Spawned"
    by (simp add: ptySpawn_posix_def)
  show "sendMessage example_runtime (ptySpawn_posix (Forked ExecNoSuchFile)) (js ''id0'')
      (js ''hi'') example_idle = Inr example_active"
    by (rule send_missing_binary)
  show "status (session (infos example_active ! 0)) = Active"
    by (simp add: example_active_eq)
  show "trace example_active =
     trace example_idle @
     [Emit (session_updated
        \<lparr>session_id = js ''id0'', worktreeId = js ''wt'', worktreePath = js ''/repo'',
         status = Active, createdAt = 1700000000\<rparr>),
      Emit (message_received
        \<lparr>message_id = js ''id1'', sessionId = js ''id0'', role = User,
         content = JString (js ''hi''), timestamp = 1700000001, message_type = Text\<rparr>),
      PtySpawn 0]"
    by (simp add: example_active_eq example_idle_eq)
  show "trace (onExit example_runtime 0 failed_exec_code
            (onData example_runtime 0 (failed_exec_output ExecNoSuchFile) example_active)) =
     trace example_active @
     [Emit (message_stream (js ''id0'')
        (JString (js ''execvp(3) failed.: No such file or directory'')) Text),
      Emit (session_updated
        \<lparr>session_id = js ''id0'', worktreeId = js ''wt'', worktreePath = js ''/repo'',
         status = Error, createdAt = 1700000000\<rparr>),
      Emit (message_complete (js ''id0'') (js ''id2''))]"
    unfolding onData_exec_failure
    by (simp add: example_active_eq onExit_def failed_exec_code_def Let_def trim_def
        set_status_def emit_def example_runtime_def js_def)
qed

section \<open>stopSession and cleanup\<close>

lemma example_two_registry:
  "processes example_two = [(js ''id0'', 0), (js ''id2'', 1)]"
  "process (infos example_two ! 0) = Some 0"
  "process (infos example_two ! 1) = None"
  unfolding example_two_def example_active_eq
  by (simp_all add: startSession_def example_runtime_def emit_def Let_def js_def)

lemma example_orphan_eq:
  "example_orphan =
     example_overlap
       \<lparr>infos := [\<lparr>process = Some 1,
                   session = \<lparr>session_id = js ''id0'', worktreeId = js ''wt'',
                              worktreePath = js ''/repo'', status = Idle,
                              createdAt = 1700000000\<rparr>,
                   buffer = []\<rparr>],
        ptys := [ptys example_overlap ! 0, (ptys example_overlap ! 1)\<lparr>exited := True\<rparr>],
        trace := trace example_overlap @
          [Emit (session_updated
             \<lparr>session_id = js ''id0'', worktreeId = js ''wt'', worktreePath = js ''/repo'',
              status = Idle, createdAt = 1700000000\<rparr>),
           Emit (message_complete (js ''id0'') (js ''id3''))],
        ids_drawn := 4\<rparr>"
  unfolding example_orphan_def example_overlap_eq
  by (simp add: onExit_def Let_def trim_def set_status_def emit_def example_runtime_def js_def)

lemma stopSession_unknown: "map_of (processes w) sid = None \<Longrightarrow> stopSession sid w = w"
  by (simp add: stopSession_def)

lemma stopSession_known:
  assumes "map_of (processes w) sid = Some r" and "process (infos w ! r) = Some pid"
    and "r < length (infos w)" and "pid < length (ptys w)"
  shows "trace (stopSession sid w) = trace w @ [PtyKill pid, Emit (session_stopped sid)]"
    and "killed (ptys (stopSession sid w) ! pid)"
    and "q \<noteq> pid \<Longrightarrow> ptys (stopSession sid w) ! q = ptys w ! q"
    and "status (session (infos (stopSession sid w) ! r)) = Stopped"
    and "getSession sid (stopSession sid w) = None"
  using assms
  by (simp_all add: stopSession_def kill_def set_status_def emit_def getSession_def Let_def
      AList.delete_conv)

text \<open>
  C5, as the code has it. Stopping a registered session whose record holds a Process
  Handle signals that PTY and no other, then emits the stop event, and nothing else;
  every other PTY is left as it was. The status of the record is Stopped and the session
  is no longer found. Stopping an unknown session leaves the whole state, trace
  included, as it was.
\<close>

theorem stop_kills_and_unregisters:
  "(map_of (processes w) sid = Some r \<and> r < length (infos w) \<and>
      process (infos w ! r) = Some pid \<and> pid < length (ptys w) \<longrightarrow>
      trace (stopSession sid w) = trace w @ [PtyKill pid, Emit (session_stopped sid)] \<and>
      killed (ptys (stopSession sid w) ! pid) \<and>
      (q \<noteq> pid \<longrightarrow> ptys (stopSession sid w) ! q = ptys w ! q) \<and>
      status (session (infos (stopSession sid w) ! r)) = Stopped \<and>
      getSession sid (stopSession sid w) = None) \<and>
   (map_of (processes w) sid = None \<longrightarrow> stopSession sid w = w)"
  using stopSession_known(1,2,4,5) [of w sid r pid] stopSession_known(3) [of w sid r pid q]
    stopSession_unknown [of w sid]
  by blast

theorem stop_kills_and_unregisters_witness:
  "(map_of (processes example_overlap) (js ''id0'') = Some 0 \<and>
    0 < length (infos example_overlap) \<and>
    process (infos example_overlap ! 0) = Some 1 \<and>
    1 < length (ptys example_overlap) \<and> (0::nat) \<noteq> 1) \<and>
   trace (stopSession (js ''id0'') example_overlap) =
     trace example_overlap @ [PtyKill 1, Emit (session_stopped (js ''id0''))] \<and>
   killed (ptys (stopSession (js ''id0'') example_overlap) ! 1) \<and>
   ptys (stopSession (js ''id0'') example_overlap) ! 0 = ptys example_overlap ! 0 \<and>
   status (session (infos (stopSession (js ''id0'') example_overlap) ! 0)) = Stopped \<and>
   getSession (js ''id0'') (stopSession (js ''id0'') example_overlap) = None \<and>
   map_of (processes example_overlap) (js ''nobody'') = None \<and>
   stopSession (js ''nobody'') example_overlap = example_overlap"
proof -
  have h: "map_of (processes example_overlap) (js ''id0'') = Some 0"
    "0 < length (infos example_overlap)" "process (infos example_overlap ! 0) = Some 1"
    "1 < length (ptys example_overlap)" "(0::nat) \<noteq> 1"
    "map_of (processes example_overlap) (js ''nobody'') = None"
    by (simp_all add: example_overlap_eq js_def)
  from stop_kills_and_unregisters [of example_overlap "js ''id0''" 0 1 0]
    stop_kills_and_unregisters [of example_overlap "js ''nobody''" 0 1 0] h
  show ?thesis by blast
qed

text \<open>
  C5, as the claim states it, fails. In \<open>example_orphan\<close> the session is registered and
  has one live subprocess, PTY 0; its record holds PTY 1, which has exited. Stop signals
  PTY 1 only, and PTY 0 is live afterwards, with the session gone from the registry.
\<close>

theorem stop_leaves_orphan_counterexample:
  "map_of (processes example_orphan) (js ''id0'') = Some 0 \<and>
   live_ptys (js ''id0'') example_orphan = [0] \<and>
   trace (stopSession (js ''id0'') example_orphan) =
     trace example_orphan @ [PtyKill 1, Emit (session_stopped (js ''id0''))] \<and>
   live_ptys (js ''id0'') (stopSession (js ''id0'') example_orphan) = [0] \<and>
   getSession (js ''id0'') (stopSession (js ''id0'') example_orphan) = None"
  unfolding example_orphan_eq example_overlap_eq
  by (simp add: live_ptys_def upt_rec stopSession_def kill_def set_status_def emit_def
      getSession_def Let_def js_def)

lemma processes_stopSession: "processes (stopSession sid w) = AList.delete sid (processes w)"
proof (cases "map_of (processes w) sid")
  case None
  then have "sid \<notin> fst ` set (processes w)"
    by (simp add: map_of_eq_None_iff)
  then have "AList.delete sid (processes w) = processes w"
    by (rule AList.delete_id)
  with None show ?thesis by (simp add: stopSession_def)
next
  case (Some r)
  then show ?thesis
    by (simp add: stopSession_def kill_def set_status_def emit_def Let_def split: option.splits)
qed

lemma processes_fold_stopSession:
  "processes (fold stopSession ks w) = filter (\<lambda>(k, r). k \<notin> set ks) (processes w)"
proof (induction ks arbitrary: w)
  case Nil
  show ?case by simp
next
  case (Cons k ks)
  have "filter (\<lambda>(k', r). k' \<notin> set ks) (AList.delete k al) =
        filter (\<lambda>(k', r). k' \<notin> set (k # ks)) al" for al :: "(jsstring \<times> nat) list"
    by (induction al) (auto simp: AList.delete_eq)
  with Cons show ?case by (simp add: processes_stopSession)
qed

lemma process_stopSession: "process (infos (stopSession sid w) ! r) = process (infos w ! r)"
proof -
  have *: "process ((xs[i := (xs ! i)\<lparr>session := s\<rparr>]) ! r) = process (xs ! r)"
    for xs :: "ProcessInfo list" and i s
    by (cases "i < length xs") (auto simp: nth_list_update list_update_beyond)
  show ?thesis
    by (simp add: stopSession_def kill_def set_status_def emit_def Let_def * split: option.splits)
qed

text \<open>What one stop adds to the trace.\<close>

lemma trace_stopSession:
  "trace (stopSession sid w) =
     trace w @
     (case map_of (processes w) sid of
        None \<Rightarrow> []
      | Some r \<Rightarrow>
          (case process (infos w ! r) of None \<Rightarrow> [] | Some pid \<Rightarrow> [PtyKill pid]) @
          [Emit (session_stopped sid)])"
  by (simp add: stopSession_def kill_def set_status_def emit_def Let_def split: option.splits)

lemma fold_stopSession_new:
  "\<exists>new. trace (fold stopSession ks w) = trace w @ new \<and>
     (\<forall>sid r. sid \<in> set ks \<and> map_of (processes w) sid = Some r \<longrightarrow>
        Emit (session_stopped sid) \<in> set new \<and>
        (\<forall>pid. process (infos w ! r) = Some pid \<longrightarrow> PtyKill pid \<in> set new))"
proof (induction ks arbitrary: w)
  case Nil
  show ?case by simp
next
  case (Cons k ks)
  let ?w = "stopSession k w"
  obtain n1 where n1: "trace ?w = trace w @ n1"
    and n1_def: "n1 = (case map_of (processes w) k of
        None \<Rightarrow> []
      | Some r \<Rightarrow>
          (case process (infos w ! r) of None \<Rightarrow> [] | Some pid \<Rightarrow> [PtyKill pid]) @
          [Emit (session_stopped k)])"
    using trace_stopSession [of k w] by blast
  from Cons [of ?w] obtain n2 where n2: "trace (fold stopSession ks ?w) = trace ?w @ n2"
    and m2: "\<And>sid r. sid \<in> set ks \<Longrightarrow> map_of (processes ?w) sid = Some r \<Longrightarrow>
        Emit (session_stopped sid) \<in> set n2 \<and>
        (\<forall>pid. process (infos ?w ! r) = Some pid \<longrightarrow> PtyKill pid \<in> set n2)"
    by blast
  have "Emit (session_stopped sid) \<in> set (n1 @ n2) \<and>
        (\<forall>pid. process (infos w ! r) = Some pid \<longrightarrow> PtyKill pid \<in> set (n1 @ n2))"
    if s: "sid \<in> set (k # ks)" and r: "map_of (processes w) sid = Some r" for sid r
  proof (cases "k = sid")
    case True
    with r n1_def show ?thesis by (auto split: option.splits)
  next
    case False
    with s have "sid \<in> set ks" by simp
    moreover from False r have "map_of (processes ?w) sid = Some r"
      by (simp add: processes_stopSession AList.delete_conv')
    ultimately show ?thesis using m2 [of sid r] by (auto simp: process_stopSession)
  qed
  then have mem: "\<forall>sid r. sid \<in> set (k # ks) \<and> map_of (processes w) sid = Some r \<longrightarrow>
      Emit (session_stopped sid) \<in> set (n1 @ n2) \<and>
      (\<forall>pid. process (infos w ! r) = Some pid \<longrightarrow> PtyKill pid \<in> set (n1 @ n2))"
    by blast
  have "trace (fold stopSession (k # ks) w) = trace w @ (n1 @ n2)"
    using n1 n2 by simp
  with mem show ?case by blast
qed

lemma fold_stopSession_trace:
  assumes "distinct (map fst ps)" and "processes w = ps"
  shows "trace (fold stopSession (map fst ps) w) =
     trace w @
     concat (map (\<lambda>(sid, r).
        (case process (infos w ! r) of None \<Rightarrow> [] | Some pid \<Rightarrow> [PtyKill pid]) @
        [Emit (session_stopped sid)]) ps)"
  using assms
proof (induction ps arbitrary: w)
  case Nil
  show ?case by simp
next
  case (Cons p ps)
  obtain k r where p: "p = (k, r)" by (cases p)
  let ?w = "stopSession k w"
  from Cons.prems p have k: "k \<notin> fst ` set ps" by auto
  then have "AList.delete k ps = ps" by (rule AList.delete_id)
  with Cons.prems(2) p have 1: "processes ?w = ps"
    by (simp add: processes_stopSession)
  from Cons.prems(2) p have 2: "trace ?w = trace w @
      (case process (infos w ! r) of None \<Rightarrow> [] | Some pid \<Rightarrow> [PtyKill pid]) @
      [Emit (session_stopped k)]"
    by (simp add: trace_stopSession)
  from Cons.prems(1) have "distinct (map fst ps)" by simp
  from Cons.IH [OF this 1] 2 p show ?case
    by (simp add: process_stopSession)
qed

lemma processes_cleanup: "processes (cleanup w) = []"
  unfolding cleanup_def processes_fold_stopSession by (force simp: filter_empty_conv)

text \<open>
  C10, as the code has it. After cleanup no session is registered: the list of all
  sessions is empty and no id is found. For every session registered before, cleanup
  has emitted the stop event and has signalled the PTY that its record held, if it held
  one. With the keys of the map distinct, as they are in a \<^verbatim>\<open>Map\<close>, that is all it
  adds to the trace, session by session in the order of the map: no other PTY is
  signalled.
\<close>

theorem cleanup_empties_registry:
  "getAllSessions (cleanup w) = [] \<and>
   getSession sid' (cleanup w) = None \<and>
   (map_of (processes w) sid = Some r \<longrightarrow>
      Emit (session_stopped sid) \<in> set (drop (length (trace w)) (trace (cleanup w))) \<and>
      (process (infos w ! r) = Some pid \<longrightarrow>
         PtyKill pid \<in> set (drop (length (trace w)) (trace (cleanup w))))) \<and>
   (distinct (map fst (processes w)) \<longrightarrow>
      trace (cleanup w) =
        trace w @
        concat (map (\<lambda>(sid, r).
           (case process (infos w ! r) of None \<Rightarrow> [] | Some pid \<Rightarrow> [PtyKill pid]) @
           [Emit (session_stopped sid)]) (processes w)))"
proof -
  obtain new where new: "trace (cleanup w) = trace w @ new"
    and m: "\<And>sid r. sid \<in> set (map fst (processes w)) \<Longrightarrow>
        map_of (processes w) sid = Some r \<Longrightarrow>
        Emit (session_stopped sid) \<in> set new \<and>
        (\<forall>pid. process (infos w ! r) = Some pid \<longrightarrow> PtyKill pid \<in> set new)"
    using fold_stopSession_new [of "map fst (processes w)" w] unfolding cleanup_def by blast
  have "Emit (session_stopped sid) \<in> set new \<and>
      (\<forall>pid. process (infos w ! r) = Some pid \<longrightarrow> PtyKill pid \<in> set new)"
    if "map_of (processes w) sid = Some r"
  proof -
    from that have "sid \<in> set (map fst (processes w))"
      by (metis domI dom_map_of_conv_image_fst set_map)
    from m [OF this that] show ?thesis .
  qed
  moreover have "drop (length (trace w)) (trace (cleanup w)) = new"
    by (simp add: new)
  moreover have "distinct (map fst (processes w)) \<longrightarrow>
      trace (cleanup w) =
        trace w @
        concat (map (\<lambda>(sid, r).
           (case process (infos w ! r) of None \<Rightarrow> [] | Some pid \<Rightarrow> [PtyKill pid]) @
           [Emit (session_stopped sid)]) (processes w))"
    unfolding cleanup_def by (auto intro: fold_stopSession_trace)
  ultimately show ?thesis
    by (simp add: getAllSessions_def getSession_def processes_cleanup)
qed

theorem cleanup_empties_registry_witness:
  "map_of (processes example_two) (js ''id0'') = Some 0 \<and>
   process (infos example_two ! 0) = Some 0 \<and>
   map_of (processes example_two) (js ''id2'') = Some 1 \<and>
   distinct (map fst (processes example_two)) \<and>
   getAllSessions (cleanup example_two) = [] \<and>
   getSession (js ''id0'') (cleanup example_two) = None \<and>
   Emit (session_stopped (js ''id0''))
     \<in> set (drop (length (trace example_two)) (trace (cleanup example_two))) \<and>
   PtyKill 0 \<in> set (drop (length (trace example_two)) (trace (cleanup example_two))) \<and>
   Emit (session_stopped (js ''id2''))
     \<in> set (drop (length (trace example_two)) (trace (cleanup example_two))) \<and>
   trace (cleanup example_two) =
     trace example_two @
     [PtyKill 0, Emit (session_stopped (js ''id0'')), Emit (session_stopped (js ''id2''))]"
proof -
  have h: "map_of (processes example_two) (js ''id0'') = Some 0"
    "process (infos example_two ! 0) = Some 0"
    "map_of (processes example_two) (js ''id2'') = Some 1"
    "distinct (map fst (processes example_two))"
    by (simp_all add: example_two_registry js_def)
  have c: "concat (map (\<lambda>(sid, r).
           (case process (infos example_two ! r) of None \<Rightarrow> [] | Some pid \<Rightarrow> [PtyKill pid]) @
           [Emit (session_stopped sid)]) (processes example_two)) =
     [PtyKill 0, Emit (session_stopped (js ''id0'')), Emit (session_stopped (js ''id2''))]"
    using example_two_registry(3) by (simp add: example_two_registry(1,2))
  from cleanup_empties_registry [of example_two "js ''id0''" "js ''id0''" 0 0]
    cleanup_empties_registry [of example_two "js ''id0''" "js ''id2''" 1 0] h
  show ?thesis unfolding c by blast
qed

text \<open>
  C10, as the claim states it, fails. In \<open>example_overlap\<close> the registered session has
  two live subprocesses and its record holds the second. Cleanup signals PTY 1 and
  emits the stop event, and that is all: PTY 0 is not signalled and is live afterwards,
  with the registry empty.
\<close>

theorem cleanup_leaves_orphan_counterexample:
  "map_of (processes example_overlap) (js ''id0'') = Some 0 \<and>
   live_ptys (js ''id0'') example_overlap = [0, 1] \<and>
   trace (cleanup example_overlap) =
     trace example_overlap @ [PtyKill 1, Emit (session_stopped (js ''id0''))] \<and>
   PtyKill 0 \<notin> set (trace (cleanup example_overlap)) \<and>
   live_ptys (js ''id0'') (cleanup example_overlap) = [0] \<and>
   getAllSessions (cleanup example_overlap) = []"
  unfolding example_overlap_eq
  by (simp add: live_ptys_def upt_rec cleanup_def stopSession_def kill_def set_status_def
      emit_def getAllSessions_def Let_def js_def)

end
